theory Spec2Isabelle
  imports Complex_Main "HOL-Library.Word"
begin

section \<open>Values crossing the HTTP boundary\<close>

text \<open>
  Request and response bodies are JSON (\<open>bodyParser.json()\<close>, \<open>res.json\<close>). A number
  is kept as the rational it denotes; only whether it is zero matters to the handlers.
\<close>

datatype json =
    JNull
  | JBool bool
  | JNum rat
  | JStr string
  | JArr "json list"
  | JObj "(string \<times> json) list"

text \<open>
  JavaScript truthiness, the test behind \<open>!deviceId\<close>, \<open>!device\<close>, \<open>!token\<close> and
  \<open>!data\<close>. \<open>None\<close> is \<open>undefined\<close>, a field or header that is absent.
\<close>

fun truthy :: "json \<Rightarrow> bool" where
  "truthy JNull = False"
| "truthy (JBool b) = b"
| "truthy (JNum n) = (n \<noteq> 0)"
| "truthy (JStr s) = (s \<noteq> [])"
| "truthy (JArr xs) = True"
| "truthy (JObj fs) = True"

definition falsy :: "json option \<Rightarrow> bool" where
  "falsy v = (case v of None \<Rightarrow> True | Some j \<Rightarrow> \<not> truthy j)"

text \<open>The same test on a value that is a string or \<open>undefined\<close> (a header, \<open>deviceId\<close>).\<close>

definition falsy_str :: "string option \<Rightarrow> bool" where
  "falsy_str v = (case v of None \<Rightarrow> True | Some s \<Rightarrow> s = [])"

text \<open>
  What a handler reads of a request: the \<open>device\<close> and \<open>token\<close> headers, and the
  \<open>deviceId\<close> and \<open>data\<close> fields of the body. \<open>deviceId\<close> is a string, as the
  route's comment documents (\<open>Body: { deviceId: string }\<close>); \<open>data\<close> is any JSON value.
\<close>

record request =
  hdr_device :: "string option"
  hdr_token :: "string option"
  body_deviceId :: "string option"
  body_data :: "json option"

datatype response = Response (status: nat) (body: json)

definition errorBody :: "string \<Rightarrow> json" where
  "errorBody msg = JObj [(''error'', JStr msg)]"

definition messageBody :: "string \<Rightarrow> json" where
  "messageBody msg = JObj [(''message'', JStr msg)]"

section \<open>The datastore\<close>

record device_record =
  device_id :: string
  token :: string

definition device_json :: "device_record \<Rightarrow> json" where
  "device_json r = JObj [(''device_id'', JStr (device_id r)), (''token'', JStr (token r))]"

text \<open>
  The error of a datastore reply. The handlers inspect one thing only, whether
  \<open>error.code\<close> is \<open>"PGRST116"\<close>; any other failure carries its message.
\<close>

datatype db_error = PGRST116 | Failure string

text \<open>The \<open>{ data, error }\<close> pair every call of the client resolves to.\<close>

datatype 'a reply = Reply (data: "'a option") (error: "db_error option")

datatype log_entry =
    LogError db_error
  | LogData "string option" json
  | LogFetchError db_error
  | LogDevices "device_record list option"

text \<open>
  The state the service acts on: the rows of \<open>devicesTable\<close> in the order they were
  inserted, the random source behind \<open>crypto.randomBytes\<close> (an endless supply of bytes)
  with the number of bytes drawn from it so far, and the lines written to the console.
\<close>

record world =
  table :: "device_record list"
  entropy :: "nat \<Rightarrow> 8 word"
  drawn :: nat
  console :: "log_entry list"

text \<open>
  What a request cannot control: whether the datastore is reachable when the handler
  reads from it and when it writes to it. \<open>Some msg\<close> is an outage.
\<close>

record env =
  select_outage :: "string option"
  insert_outage :: "string option"

text \<open>
  Modelled from the spec: the datastore client (\<open>@supabase/supabase-js\<close>) is an external
  collaborator, so \<open>single\<close>, \<open>select_single\<close>, \<open>select_all\<close> and \<open>insert_row\<close> follow
  section 6 of the specification (select by equality filter, single-row fetch,
  unfiltered full-table fetch, row insert). A single-row fetch answers with the row
  when exactly one row passes the filter and with the "not found" error \<open>PGRST116\<close>
  when none does; to several rows, which the specification leaves open, it gives the
  client's answer, the same error \<open>PGRST116\<close>. A call made during an outage fails and
  changes nothing, and no uniqueness constraint guards the insert (section 3).
\<close>

definition single :: "device_record list \<Rightarrow> device_record reply" where
  "single rs = (case rs of [r] \<Rightarrow> Reply (Some r) None | _ \<Rightarrow> Reply None (Some PGRST116))"

definition select_single :: "string option \<Rightarrow> (device_record \<Rightarrow> bool) \<Rightarrow> world \<Rightarrow> device_record reply" where
  "select_single outage p w =
     (case outage of
        Some msg \<Rightarrow> Reply None (Some (Failure msg))
      | None \<Rightarrow> single (filter p (table w)))"

definition select_all :: "string option \<Rightarrow> world \<Rightarrow> (device_record list) reply" where
  "select_all outage w =
     (case outage of
        Some msg \<Rightarrow> Reply None (Some (Failure msg))
      | None \<Rightarrow> Reply (Some (table w)) None)"

definition insert_row :: "string option \<Rightarrow> device_record \<Rightarrow> world \<Rightarrow> db_error option \<times> world" where
  "insert_row outage r w =
     (case outage of
        Some msg \<Rightarrow> (Some (Failure msg), w)
      | None \<Rightarrow> (None, w\<lparr>table := table w @ [r]\<rparr>))"

section \<open>Token generation\<close>

definition hexDigits :: string where
  "hexDigits = ''0123456789abcdef''"

definition hexDigit :: "nat \<Rightarrow> char" where
  "hexDigit n = hexDigits ! n"

definition byteToHex :: "8 word \<Rightarrow> string" where
  "byteToHex b = [hexDigit (unat b div 16), hexDigit (unat b mod 16)]"

definition toHex :: "8 word list \<Rightarrow> string" where
  "toHex bs = concat (map byteToHex bs)"

definition randomBytes :: "nat \<Rightarrow> world \<Rightarrow> 8 word list \<times> world" where
  "randomBytes n w = (map (entropy w) [drawn w ..< drawn w + n], w\<lparr>drawn := drawn w + n\<rparr>)"

definition generateToken :: "world \<Rightarrow> string \<times> world" where
  "generateToken w = (let (bs, w') = randomBytes 16 w in (toHex bs, w'))"

section \<open>The routes\<close>

definition registerDevice :: "env \<Rightarrow> request \<Rightarrow> world \<Rightarrow> response \<times> world" where
  "registerDevice e req w =
     (if falsy_str (body_deviceId req)
      then (Response 400 (errorBody ''Device ID is required.''), w)
      else
        let deviceId = the (body_deviceId req);
            r = select_single (select_outage e) (\<lambda>row. device_id row = deviceId) w
        in if (case error r of Some fetchError \<Rightarrow> fetchError \<noteq> PGRST116 | None \<Rightarrow> False)
           then (Response 500 (errorBody ''Error checking device existence.''),
                 w\<lparr>console := console w @ [LogError (the (error r))]\<rparr>)
           else if data r \<noteq> None
           then (Response 400 (errorBody ''Device ID is already registered.''), w)
           else
             let (tok, w1) = generateToken w;
                 (insertError, w2) = insert_row (insert_outage e) \<lparr>device_id = deviceId, token = tok\<rparr> w1
             in case insertError of
                  Some ie \<Rightarrow>
                    (Response 500 (errorBody ''Error registering device.''),
                     w2\<lparr>console := console w2 @ [LogError ie]\<rparr>)
                | None \<Rightarrow>
                    (Response 201
                       (JObj [(''message'', JStr ''Device registered successfully.''),
                              (''deviceId'', JStr deviceId),
                              (''token'', JStr tok)]),
                     w2))"

text \<open>
  The handler is suspended at each \<open>await\<close>, and other handlers run meanwhile: between
  the reply to the existence check (lines 36 to 40) and the insert (lines 53 to 55) the
  table may change. \<open>registerCheck\<close> is the handler up to what it decides on the reply
  to the check (lines 29 to 49), with \<open>None\<close> for going on, and \<open>registerInsert\<close> is the
  rest (lines 51 to 64), run only after the check let the request through.
  \<open>registerDevice\<close> above is the one followed by the other with nothing in between.
\<close>

definition registerCheck :: "env \<Rightarrow> request \<Rightarrow> world \<Rightarrow> (response \<times> world) option" where
  "registerCheck e req w =
     (if falsy_str (body_deviceId req)
      then Some (Response 400 (errorBody ''Device ID is required.''), w)
      else
        let deviceId = the (body_deviceId req);
            r = select_single (select_outage e) (\<lambda>row. device_id row = deviceId) w
        in if (case error r of Some fetchError \<Rightarrow> fetchError \<noteq> PGRST116 | None \<Rightarrow> False)
           then Some (Response 500 (errorBody ''Error checking device existence.''),
                      w\<lparr>console := console w @ [LogError (the (error r))]\<rparr>)
           else if data r \<noteq> None
           then Some (Response 400 (errorBody ''Device ID is already registered.''), w)
           else None)"

definition registerInsert :: "env \<Rightarrow> request \<Rightarrow> world \<Rightarrow> response \<times> world" where
  "registerInsert e req w =
     (let deviceId = the (body_deviceId req);
          (tok, w1) = generateToken w;
          (insertError, w2) = insert_row (insert_outage e) \<lparr>device_id = deviceId, token = tok\<rparr> w1
      in case insertError of
           Some ie \<Rightarrow>
             (Response 500 (errorBody ''Error registering device.''),
              w2\<lparr>console := console w2 @ [LogError ie]\<rparr>)
         | None \<Rightarrow>
             (Response 201
                (JObj [(''message'', JStr ''Device registered successfully.''),
                       (''deviceId'', JStr deviceId),
                       (''token'', JStr tok)]),
              w2))"

text \<open>The middleware either answers the request itself or calls \<open>next()\<close>.\<close>

datatype verdict = Respond response | Next

definition authenticateDevice :: "env \<Rightarrow> request \<Rightarrow> world \<Rightarrow> verdict" where
  "authenticateDevice e req w =
     (if falsy_str (hdr_device req) \<or> falsy_str (hdr_token req)
      then Respond (Response 401 (errorBody ''Device ID and token are required.''))
      else
        let device = the (hdr_device req);
            tok = the (hdr_token req);
            r = select_single (select_outage e) (\<lambda>row. device_id row = device \<and> token row = tok) w
        in if error r \<noteq> None \<or> data r = None
           then Respond (Response 403 (errorBody ''Invalid token or unauthorized device.''))
           else Next)"

definition uploadHandler :: "request \<Rightarrow> world \<Rightarrow> response \<times> world" where
  "uploadHandler req w =
     (if falsy (body_data req)
      then (Response 400 (errorBody ''Data is required for upload.''), w)
      else (Response 200 (messageBody ''Data uploaded successfully.''),
            w\<lparr>console := console w @ [LogData (hdr_device req) (the (body_data req))]\<rparr>))"

definition uploadData :: "env \<Rightarrow> request \<Rightarrow> world \<Rightarrow> response \<times> world" where
  "uploadData e req w =
     (case authenticateDevice e req w of
        Respond res \<Rightarrow> (res, w)
      | Next \<Rightarrow> uploadHandler req w)"

definition listDevices :: "env \<Rightarrow> request \<Rightarrow> world \<Rightarrow> response \<times> world" where
  "listDevices e req w =
     (let r = select_all (select_outage e) w
      in case error r of
           Some err \<Rightarrow>
             (Response 500 (errorBody ''Error fetching device list.''),
              w\<lparr>console := console w @ [LogFetchError err]\<rparr>)
         | None \<Rightarrow>
             (Response 200
                (JObj [(''devices'', case data r of Some devices \<Rightarrow> JArr (map device_json devices) | None \<Rightarrow> JNull)]),
              w\<lparr>console := console w @ [LogDevices (data r)]\<rparr>))"

definition health :: "request \<Rightarrow> world \<Rightarrow> response \<times> world" where
  "health req w = (Response 200 (messageBody ''Server is up and running.''), w)"

text \<open>The router, and the service answering a sequence of requests one after another.\<close>

datatype route = PostRegisterDevice | PostUploadData | GetListDevices | GetHealth

fun serve :: "route \<Rightarrow> env \<Rightarrow> request \<Rightarrow> world \<Rightarrow> response \<times> world" where
  "serve PostRegisterDevice e req w = registerDevice e req w"
| "serve PostUploadData e req w = uploadData e req w"
| "serve GetListDevices e req w = listDevices e req w"
| "serve GetHealth e req w = health req w"

fun serveAll :: "(route \<times> env \<times> request) list \<Rightarrow> world \<Rightarrow> world" where
  "serveAll [] w = w"
| "serveAll ((rt, e, req) # rest) w = serveAll rest (snd (serve rt e req w))"

text \<open>A datastore that holds no record yet.\<close>

definition fresh :: "(nat \<Rightarrow> 8 word) \<Rightarrow> world" where
  "fresh ent = \<lparr>table = [], entropy = ent, drawn = 0, console = []\<rparr>"

text \<open>The token a registration response carries, if it carries one.\<close>

definition issuedToken :: "response \<Rightarrow> string option" where
  "issuedToken res =
     (case body res of
        JObj fs \<Rightarrow> (case map_of fs ''token'' of Some (JStr t) \<Rightarrow> Some t | _ \<Rightarrow> None)
      | _ \<Rightarrow> None)"

section \<open>Observations and sample inputs\<close>

text \<open>The middleware answered the request itself, with the given status.\<close>

definition rejected :: "nat \<Rightarrow> verdict \<Rightarrow> bool" where
  "rejected code v = (case v of Respond res \<Rightarrow> status res = code | Next \<Rightarrow> False)"

text \<open>
  The credentials handed out while a sequence of requests is served: one record for
  each registration answered 201, with the identifier sent and the token returned.
\<close>

fun issued :: "(route \<times> env \<times> request) list \<Rightarrow> world \<Rightarrow> device_record list" where
  "issued [] w = []"
| "issued ((rt, e, req) # rest) w =
     (if rt = PostRegisterDevice \<and> status (fst (serve rt e req w)) = 201
      then [\<lparr>device_id = the (body_deviceId req), token = the (issuedToken (fst (serve rt e req w)))\<rparr>]
      else [])
     @ issued rest (snd (serve rt e req w))"

text \<open>A datastore that answers, and one that is down for reads or for writes.\<close>

definition calm :: env where
  "calm = \<lparr>select_outage = None, insert_outage = None\<rparr>"

definition selectDown :: env where
  "selectDown = \<lparr>select_outage = Some ''connection refused'', insert_outage = None\<rparr>"

definition insertDown :: env where
  "insertDown = \<lparr>select_outage = None, insert_outage = Some ''connection refused''\<rparr>"

definition registration :: "string \<Rightarrow> request" where
  "registration d = \<lparr>hdr_device = None, hdr_token = None, body_deviceId = Some d, body_data = None\<rparr>"

definition upload :: "string \<Rightarrow> string \<Rightarrow> json option \<Rightarrow> request" where
  "upload d t v = \<lparr>hdr_device = Some d, hdr_token = Some t, body_deviceId = None, body_data = v\<rparr>"

definition sampleEntropy :: "nat \<Rightarrow> 8 word" where
  "sampleEntropy n = of_nat (17 * n + 3)"

text \<open>The service after \<open>sensor-1\<close> has registered with a fresh datastore.\<close>

definition sensorWorld :: world where
  "sensorWorld = snd (registerDevice calm (registration ''sensor-1'') (fresh sampleEntropy))"

text \<open>A table in which two records carry the same identifier and the same token.\<close>

definition twinWorld :: world where
  "twinWorld =
     \<lparr>table = [\<lparr>device_id = ''sensor-1'', token = ''031425364758697a8b9cadbecfe0f102''\<rparr>,
               \<lparr>device_id = ''sensor-1'', token = ''031425364758697a8b9cadbecfe0f102''\<rparr>],
      entropy = sampleEntropy, drawn = 32, console = []\<rparr>"

text \<open>
  Two registrations of \<open>sensor-1\<close> that overlap on a fresh datastore: both existence
  checks are answered from the empty table before either insert is made, then the two
  inserts follow. \<open>raceWorld\<close> is the state they leave.
\<close>

definition raceWorld :: world where
  "raceWorld =
     snd (registerInsert calm (registration ''sensor-1'')
       (snd (registerInsert calm (registration ''sensor-1'') (fresh sampleEntropy))))"

text \<open>
  A service answering requests one at a time: \<open>sensor-2\<close> registers first, then
  \<open>sensor-1\<close>, then \<open>sensor-1\<close> tries again and \<open>sensor-3\<close> registers.
\<close>

definition earlier :: "(route \<times> env \<times> request) list" where
  "earlier = [(PostRegisterDevice, calm, registration ''sensor-2'')]"

definition afterwards :: "(route \<times> env \<times> request) list" where
  "afterwards = [(PostRegisterDevice, calm, registration ''sensor-1''),
                 (PostRegisterDevice, calm, registration ''sensor-3'')]"

definition busyWorld :: world where
  "busyWorld =
     serveAll afterwards
       (snd (registerDevice calm (registration ''sensor-1'') (serveAll earlier (fresh sampleEntropy))))"

section \<open>Auxiliary facts\<close>

lemma hexDigit_in: "n < 16 \<Longrightarrow> hexDigit n \<in> set hexDigits"
  unfolding hexDigit_def by (rule nth_mem) (simp add: hexDigits_def)

lemma byteToHex_length: "length (byteToHex b) = 2"
  by (simp add: byteToHex_def)

lemma byteToHex_chars: "set (byteToHex b) \<subseteq> set hexDigits"
proof -
  have "unat b < 256" using unsigned_less [of b, where ?'a = nat] by simp
  then have hi: "unat b div 16 < 16" by simp
  have lo: "unat b mod 16 < 16" by simp
  show ?thesis
    using hexDigit_in [OF hi] hexDigit_in [OF lo] by (simp add: byteToHex_def)
qed

lemma toHex_length: "length (toHex bs) = 2 * length bs"
  by (induction bs) (simp_all add: toHex_def byteToHex_length)

lemma toHex_chars: "set (toHex bs) \<subseteq> set hexDigits"
  unfolding toHex_def using byteToHex_chars by (induction bs) auto

lemma generateToken_eq:
  "generateToken w = (toHex (map (entropy w) [drawn w ..< drawn w + 16]), w\<lparr>drawn := drawn w + 16\<rparr>)"
  by (simp add: generateToken_def randomBytes_def)

lemma generateToken_length: "length (fst (generateToken w)) = 32"
  by (simp add: generateToken_eq toHex_length)

text \<open>The five ways a registration ends.\<close>

lemma registerDevice_missing:
  "falsy_str (body_deviceId req) \<Longrightarrow>
   registerDevice e req w = (Response 400 (errorBody ''Device ID is required.''), w)"
  by (simp add: registerDevice_def)

lemma registerDevice_outage:
  "\<not> falsy_str (body_deviceId req) \<Longrightarrow> select_outage e = Some msg \<Longrightarrow>
   registerDevice e req w =
     (Response 500 (errorBody ''Error checking device existence.''),
      w\<lparr>console := console w @ [LogError (Failure msg)]\<rparr>)"
  by (simp add: registerDevice_def select_single_def)

lemma registerDevice_conflict:
  "\<not> falsy_str (body_deviceId req) \<Longrightarrow> select_outage e = None \<Longrightarrow>
   filter (\<lambda>row. device_id row = the (body_deviceId req)) (table w) = [r] \<Longrightarrow>
   registerDevice e req w = (Response 400 (errorBody ''Device ID is already registered.''), w)"
  by (simp add: registerDevice_def select_single_def single_def)

lemma single_miss: "length rs \<noteq> 1 \<Longrightarrow> single rs = Reply None (Some PGRST116)"
  by (cases rs rule: list.exhaust; simp add: single_def split: list.splits)

lemma single_hit: "single [r] = Reply (Some r) None"
  by (simp add: single_def)

lemma registerDevice_insert_failed:
  "\<not> falsy_str (body_deviceId req) \<Longrightarrow> select_outage e = None \<Longrightarrow>
   length (filter (\<lambda>row. device_id row = the (body_deviceId req)) (table w)) \<noteq> 1 \<Longrightarrow>
   insert_outage e = Some msg \<Longrightarrow>
   registerDevice e req w =
     (Response 500 (errorBody ''Error registering device.''),
      w\<lparr>drawn := drawn w + 16, console := console w @ [LogError (Failure msg)]\<rparr>)"
  by (simp add: registerDevice_def Let_def select_single_def single_miss generateToken_eq insert_row_def)

lemma registerDevice_inserted:
  "\<not> falsy_str (body_deviceId req) \<Longrightarrow> select_outage e = None \<Longrightarrow>
   length (filter (\<lambda>row. device_id row = the (body_deviceId req)) (table w)) \<noteq> 1 \<Longrightarrow>
   insert_outage e = None \<Longrightarrow>
   registerDevice e req w =
     (Response 201
        (JObj [(''message'', JStr ''Device registered successfully.''),
               (''deviceId'', JStr (the (body_deviceId req))),
               (''token'', JStr (fst (generateToken w)))]),
      w\<lparr>drawn := drawn w + 16,
        table := table w @ [\<lparr>device_id = the (body_deviceId req), token = fst (generateToken w)\<rparr>]\<rparr>)"
  by (simp add: registerDevice_def Let_def select_single_def single_miss generateToken_eq insert_row_def)

lemma registerDevice_created:
  assumes "status (fst (registerDevice e req w)) = 201"
  shows "\<not> falsy_str (body_deviceId req)" and "select_outage e = None"
    and "length (filter (\<lambda>row. device_id row = the (body_deviceId req)) (table w)) \<noteq> 1"
    and "insert_outage e = None"
proof -
  show a: "\<not> falsy_str (body_deviceId req)"
    using assms by (auto simp: registerDevice_missing)
  show b: "select_outage e = None"
    using assms a by (cases "select_outage e") (auto simp: registerDevice_outage)
  show c: "length (filter (\<lambda>row. device_id row = the (body_deviceId req)) (table w)) \<noteq> 1"
  proof
    assume "length (filter (\<lambda>row. device_id row = the (body_deviceId req)) (table w)) = 1"
    then obtain r where "filter (\<lambda>row. device_id row = the (body_deviceId req)) (table w) = [r]"
      by (auto simp: length_Suc_conv)
    from registerDevice_conflict [OF a b this] assms show False by simp
  qed
  show "insert_outage e = None"
    using assms a b c by (cases "insert_outage e") (auto simp: registerDevice_insert_failed)
qed

lemma registerDevice_status:
  "status (fst (registerDevice e req w)) \<in> {201, 400, 500}"
proof (cases "falsy_str (body_deviceId req)")
  case True
  then show ?thesis by (simp add: registerDevice_missing)
next
  case present: False
  show ?thesis
  proof (cases "select_outage e")
    case (Some msg)
    with present show ?thesis by (simp add: registerDevice_outage)
  next
    case up: None
    show ?thesis
    proof (cases "length (filter (\<lambda>row. device_id row = the (body_deviceId req)) (table w)) = 1")
      case True
      then obtain r where "filter (\<lambda>row. device_id row = the (body_deviceId req)) (table w) = [r]"
        by (auto simp: length_Suc_conv)
      from registerDevice_conflict [OF present up this] show ?thesis by simp
    next
      case False
      with present up show ?thesis
        by (cases "insert_outage e") (simp_all add: registerDevice_insert_failed registerDevice_inserted)
    qed
  qed
qed

lemma registerDevice_table:
  "table (snd (registerDevice e req w)) =
     (if status (fst (registerDevice e req w)) = 201
      then table w @ [\<lparr>device_id = the (body_deviceId req), token = fst (generateToken w)\<rparr>]
      else table w)"
proof (cases "falsy_str (body_deviceId req)")
  case True
  then show ?thesis by (simp add: registerDevice_missing)
next
  case present: False
  show ?thesis
  proof (cases "select_outage e")
    case (Some msg)
    with present show ?thesis by (simp add: registerDevice_outage)
  next
    case up: None
    show ?thesis
    proof (cases "length (filter (\<lambda>row. device_id row = the (body_deviceId req)) (table w)) = 1")
      case True
      then obtain r where "filter (\<lambda>row. device_id row = the (body_deviceId req)) (table w) = [r]"
        by (auto simp: length_Suc_conv)
      from registerDevice_conflict [OF present up this] show ?thesis by simp
    next
      case False
      with present up show ?thesis
        by (cases "insert_outage e") (simp_all add: registerDevice_insert_failed registerDevice_inserted)
    qed
  qed
qed

lemma uploadData_table: "table (snd (uploadData e req w)) = table w"
  by (simp add: uploadData_def uploadHandler_def split: verdict.split)

lemma listDevices_table: "table (snd (listDevices e req w)) = table w"
  by (simp add: listDevices_def Let_def split: option.split)

lemma health_table: "table (snd (health req w)) = table w"
  by (simp add: health_def)

lemma filter_absent: "x \<notin> set (map f xs) \<Longrightarrow> filter (\<lambda>y. f y = x) xs = []"
  by (induction xs) auto

lemma filter_distinct_key:
  "distinct (map f xs) \<Longrightarrow> x \<in> set xs \<Longrightarrow> filter (\<lambda>y. f y = f x) xs = [x]"
proof (induction xs)
  case Nil
  then show ?case by simp
next
  case (Cons a xs)
  show ?case
  proof (cases "x = a")
    case True
    with Cons.prems have "f a \<notin> set (map f xs)" by simp
    from filter_absent [OF this] True show ?thesis by simp
  next
    case False
    with Cons.prems have "x \<in> set xs" and "f a \<noteq> f x" by auto
    with Cons show ?thesis by simp
  qed
qed

lemma registerDevice_distinct:
  assumes "distinct (map device_id (table w))"
  shows "distinct (map device_id (table (snd (registerDevice e req w))))"
proof (cases "status (fst (registerDevice e req w)) = 201")
  case False
  with assms show ?thesis by (simp add: registerDevice_table)
next
  case True
  let ?d = "the (body_deviceId req)"
  have "?d \<notin> set (map device_id (table w))"
  proof
    assume "?d \<in> set (map device_id (table w))"
    then obtain r where r: "r \<in> set (table w)" "device_id r = ?d" by auto
    from filter_distinct_key [OF assms r(1)] r(2)
    have "length (filter (\<lambda>row. device_id row = ?d) (table w)) = 1" by simp
    with registerDevice_created(3) [OF True] show False by simp
  qed
  with assms True show ?thesis by (simp add: registerDevice_table)
qed

lemma serve_distinct:
  "distinct (map device_id (table w)) \<Longrightarrow> distinct (map device_id (table (snd (serve rt e req w))))"
  by (cases rt) (simp_all add: registerDevice_distinct uploadData_table listDevices_table health_table)

lemma serveAll_distinct:
  "distinct (map device_id (table w)) \<Longrightarrow> distinct (map device_id (table (serveAll tr w)))"
proof (induction tr arbitrary: w)
  case Nil
  then show ?case by simp
next
  case (Cons c tr)
  obtain rt e req where c: "c = (rt, e, req)" by (cases c)
  from Cons.prems have "distinct (map device_id (table (snd (serve rt e req w))))"
    by (rule serve_distinct)
  from Cons.IH [OF this] c show ?case by simp
qed

lemma serve_keeps: "r \<in> set (table w) \<Longrightarrow> r \<in> set (table (snd (serve rt e req w)))"
  by (cases rt) (simp_all add: registerDevice_table uploadData_table listDevices_table health_table)

lemma serveAll_keeps: "r \<in> set (table w) \<Longrightarrow> r \<in> set (table (serveAll tr w))"
proof (induction tr arbitrary: w)
  case Nil
  then show ?case by simp
next
  case (Cons c tr)
  obtain rt e req where c: "c = (rt, e, req)" by (cases c)
  from Cons.prems have "r \<in> set (table (snd (serve rt e req w)))" by (rule serve_keeps)
  from Cons.IH [OF this] c show ?case by simp
qed

lemma issuedToken_created:
  "status (fst (registerDevice e req w)) = 201 \<Longrightarrow>
   issuedToken (fst (registerDevice e req w)) = Some (fst (generateToken w))"
  using registerDevice_created [of e req w]
  by (simp add: registerDevice_inserted issuedToken_def)

text \<open>The four ways the middleware ends.\<close>

lemma authenticateDevice_required:
  "falsy_str (hdr_device req) \<or> falsy_str (hdr_token req) \<Longrightarrow>
   authenticateDevice e req w = Respond (Response 401 (errorBody ''Device ID and token are required.''))"
  by (simp add: authenticateDevice_def)

lemma authenticateDevice_outage:
  "\<not> falsy_str (hdr_device req) \<Longrightarrow> \<not> falsy_str (hdr_token req) \<Longrightarrow> select_outage e = Some msg \<Longrightarrow>
   authenticateDevice e req w = Respond (Response 403 (errorBody ''Invalid token or unauthorized device.''))"
  by (simp add: authenticateDevice_def select_single_def)

lemma authenticateDevice_not_single:
  "\<not> falsy_str (hdr_device req) \<Longrightarrow> \<not> falsy_str (hdr_token req) \<Longrightarrow>
   length (filter (\<lambda>row. device_id row = the (hdr_device req) \<and> token row = the (hdr_token req)) (table w)) \<noteq> 1 \<Longrightarrow>
   authenticateDevice e req w = Respond (Response 403 (errorBody ''Invalid token or unauthorized device.''))"
  by (cases "select_outage e") (simp_all add: authenticateDevice_def select_single_def single_miss Let_def)

lemma authenticateDevice_single:
  "\<not> falsy_str (hdr_device req) \<Longrightarrow> \<not> falsy_str (hdr_token req) \<Longrightarrow> select_outage e = None \<Longrightarrow>
   filter (\<lambda>row. device_id row = the (hdr_device req) \<and> token row = the (hdr_token req)) (table w) = [r] \<Longrightarrow>
   authenticateDevice e req w = Next"
  by (simp add: authenticateDevice_def select_single_def single_hit Let_def)

lemma authenticateDevice_next:
  assumes "authenticateDevice e req w = Next"
  shows "\<not> falsy_str (hdr_device req)" and "\<not> falsy_str (hdr_token req)"
    and "select_outage e = None"
    and "length (filter (\<lambda>row. device_id row = the (hdr_device req) \<and> token row = the (hdr_token req)) (table w)) = 1"
proof -
  show a: "\<not> falsy_str (hdr_device req)" and b: "\<not> falsy_str (hdr_token req)"
    using assms authenticateDevice_required [of req e w] by auto
  show "select_outage e = None"
    using assms a b by (cases "select_outage e") (auto simp: authenticateDevice_outage)
  show "length (filter (\<lambda>row. device_id row = the (hdr_device req) \<and> token row = the (hdr_token req)) (table w)) = 1"
    using assms authenticateDevice_not_single [OF a b, of w e] by auto
qed

text \<open>What serving a sequence of requests leaves in the table.\<close>

lemma serve_table:
  "table (snd (serve rt e req w)) = table w @ issued [(rt, e, req)] w"
  by (cases rt)
    (simp_all add: registerDevice_table issuedToken_created uploadData_table listDevices_table health_table)

lemma serveAll_table: "table (serveAll tr w) = table w @ issued tr w"
proof (induction tr arbitrary: w)
  case Nil
  then show ?case by simp
next
  case (Cons c tr)
  obtain rt e req where c: "c = (rt, e, req)" by (cases c)
  have "table (serveAll (c # tr) w) = table (snd (serve rt e req w)) @ issued tr (snd (serve rt e req w))"
    using c Cons.IH by simp
  also have "\<dots> = table w @ issued (c # tr) w"
    using c serve_table [of rt e req w] by simp
  finally show ?case .
qed

lemma fresh_distinct: "distinct (map device_id (table (fresh ent)))"
  by (simp add: fresh_def)

text \<open>
  Once a registration has been answered 201 by a service that started on an empty
  datastore, the record it inserted is the only one with its identifier, whatever
  requests were served before and after.
\<close>

lemma registered_record_unique:
  assumes created: "status (fst (registerDevice e req (serveAll before (fresh ent)))) = 201"
  shows "filter (\<lambda>row. device_id row = the (body_deviceId req))
           (table (serveAll after (snd (registerDevice e req (serveAll before (fresh ent))))))
         = [\<lparr>device_id = the (body_deviceId req),
              token = fst (generateToken (serveAll before (fresh ent)))\<rparr>]"
proof -
  let ?w0 = "serveAll before (fresh ent)"
  let ?w1 = "snd (registerDevice e req ?w0)"
  let ?r = "\<lparr>device_id = the (body_deviceId req), token = fst (generateToken ?w0)\<rparr>"
  have "distinct (map device_id (table ?w0))"
    using fresh_distinct by (rule serveAll_distinct)
  then have "distinct (map device_id (table ?w1))"
    by (rule registerDevice_distinct)
  then have d: "distinct (map device_id (table (serveAll after ?w1)))"
    by (rule serveAll_distinct)
  have "?r \<in> set (table ?w1)"
    using created by (simp add: registerDevice_table)
  then have "?r \<in> set (table (serveAll after ?w1))"
    by (rule serveAll_keeps)
  from filter_distinct_key [OF d this] show ?thesis by simp
qed

subsection \<open>The sample inputs, evaluated\<close>

lemma registration_sent: "body_deviceId (registration d) = Some d"
  by (simp add: registration_def)

lemma sample_token:
  "toHex (map sampleEntropy [0 ..< 16]) = ''031425364758697a8b9cadbecfe0f102''"
  by (simp add: toHex_def byteToHex_def hexDigit_def hexDigits_def sampleEntropy_def upt_rec)

lemma sample_registration:
  "registerDevice calm (registration ''sensor-1'') (fresh sampleEntropy) =
     (Response 201
        (JObj [(''message'', JStr ''Device registered successfully.''),
               (''deviceId'', JStr ''sensor-1''),
               (''token'', JStr ''031425364758697a8b9cadbecfe0f102'')]),
      \<lparr>table = [\<lparr>device_id = ''sensor-1'', token = ''031425364758697a8b9cadbecfe0f102''\<rparr>],
       entropy = sampleEntropy, drawn = 16, console = []\<rparr>)"
  by (simp add: registerDevice_def calm_def registration_def fresh_def falsy_str_def
      select_single_def single_def generateToken_eq insert_row_def sample_token Let_def)

lemma sample_insert_failure:
  "registerDevice insertDown (registration ''sensor-1'') (fresh sampleEntropy) =
     (Response 500 (errorBody ''Error registering device.''),
      \<lparr>table = [], entropy = sampleEntropy, drawn = 16,
       console = [LogError (Failure ''connection refused'')]\<rparr>)"
  by (simp add: registerDevice_def insertDown_def registration_def fresh_def falsy_str_def
      select_single_def single_def generateToken_eq insert_row_def Let_def)

lemma sensorWorld_eq:
  "sensorWorld =
     \<lparr>table = [\<lparr>device_id = ''sensor-1'', token = ''031425364758697a8b9cadbecfe0f102''\<rparr>],
      entropy = sampleEntropy, drawn = 16, console = []\<rparr>"
  by (simp add: sensorWorld_def sample_registration)

lemma sample_authentication:
  "authenticateDevice calm (upload ''sensor-1'' ''031425364758697a8b9cadbecfe0f102'' v) sensorWorld = Next"
  by (simp add: authenticateDevice_def calm_def upload_def falsy_str_def select_single_def
      single_def sensorWorld_eq Let_def)

lemma sample_second_attempt:
  "registerDevice calm (registration ''sensor-1'') sensorWorld
     = (Response 400 (errorBody ''Device ID is already registered.''), sensorWorld)"
  by (simp add: registerDevice_def calm_def registration_def falsy_str_def select_single_def
      single_def sensorWorld_eq Let_def)

lemma sample_second_device:
  "registerDevice calm (registration ''sensor-2'') sensorWorld =
     (Response 201
        (JObj [(''message'', JStr ''Device registered successfully.''),
               (''deviceId'', JStr ''sensor-2''),
               (''token'', JStr ''132435465768798a9bacbdcedff00112'')]),
      \<lparr>table = [\<lparr>device_id = ''sensor-1'', token = ''031425364758697a8b9cadbecfe0f102''\<rparr>,
                \<lparr>device_id = ''sensor-2'', token = ''132435465768798a9bacbdcedff00112''\<rparr>],
       entropy = sampleEntropy, drawn = 32, console = []\<rparr>)"
  by (simp add: registerDevice_def calm_def registration_def falsy_str_def select_single_def
      single_def generateToken_eq insert_row_def sensorWorld_eq Let_def
      toHex_def byteToHex_def hexDigit_def hexDigits_def sampleEntropy_def)

lemma sample_issued:
  "issued [(PostRegisterDevice, calm, registration ''sensor-1''),
           (PostRegisterDevice, calm, registration ''sensor-1''),
           (PostRegisterDevice, calm, registration ''sensor-2'')] (fresh sampleEntropy)
     = [\<lparr>device_id = ''sensor-1'', token = ''031425364758697a8b9cadbecfe0f102''\<rparr>,
        \<lparr>device_id = ''sensor-2'', token = ''132435465768798a9bacbdcedff00112''\<rparr>]"
proof -
  have first: "snd (registerDevice calm (registration ''sensor-1'') (fresh sampleEntropy)) = sensorWorld"
    by (simp add: sensorWorld_def)
  show ?thesis
    by (simp add: first sample_second_attempt sample_second_device)
      (simp add: sample_registration issuedToken_def registration_sent)
qed

lemma registerDevice_phases:
  "registerDevice e req w =
     (case registerCheck e req w of Some answer \<Rightarrow> answer | None \<Rightarrow> registerInsert e req w)"
  by (simp add: registerDevice_def registerCheck_def registerInsert_def Let_def)

lemma race_check:
  "registerCheck calm (registration ''sensor-1'') (fresh sampleEntropy) = None"
  by (simp add: registerCheck_def calm_def registration_def fresh_def falsy_str_def
      select_single_def single_def Let_def)

lemma race_first_insert:
  "registerInsert calm (registration ''sensor-1'') (fresh sampleEntropy) =
     (Response 201
        (JObj [(''message'', JStr ''Device registered successfully.''),
               (''deviceId'', JStr ''sensor-1''),
               (''token'', JStr ''031425364758697a8b9cadbecfe0f102'')]),
      sensorWorld)"
  using registerDevice_phases [of calm "registration ''sensor-1''" "fresh sampleEntropy"]
  by (simp add: race_check sample_registration sensorWorld_eq)

lemma race_second_insert:
  "registerInsert calm (registration ''sensor-1'') sensorWorld =
     (Response 201
        (JObj [(''message'', JStr ''Device registered successfully.''),
               (''deviceId'', JStr ''sensor-1''),
               (''token'', JStr ''132435465768798a9bacbdcedff00112'')]),
      \<lparr>table = [\<lparr>device_id = ''sensor-1'', token = ''031425364758697a8b9cadbecfe0f102''\<rparr>,
                \<lparr>device_id = ''sensor-1'', token = ''132435465768798a9bacbdcedff00112''\<rparr>],
       entropy = sampleEntropy, drawn = 32, console = []\<rparr>)"
  by (simp add: registerInsert_def calm_def registration_def generateToken_eq insert_row_def
      sensorWorld_eq Let_def toHex_def byteToHex_def hexDigit_def hexDigits_def sampleEntropy_def)

lemma raceWorld_eq:
  "raceWorld =
     \<lparr>table = [\<lparr>device_id = ''sensor-1'', token = ''031425364758697a8b9cadbecfe0f102''\<rparr>,
               \<lparr>device_id = ''sensor-1'', token = ''132435465768798a9bacbdcedff00112''\<rparr>],
      entropy = sampleEntropy, drawn = 32, console = []\<rparr>"
  by (simp add: raceWorld_def race_first_insert race_second_insert)

lemma race_third_registration:
  "registerDevice calm (registration ''sensor-1'') raceWorld =
     (Response 201
        (JObj [(''message'', JStr ''Device registered successfully.''),
               (''deviceId'', JStr ''sensor-1''),
               (''token'', JStr ''233445566778899aabbccddeef001122'')]),
      \<lparr>table = [\<lparr>device_id = ''sensor-1'', token = ''031425364758697a8b9cadbecfe0f102''\<rparr>,
                \<lparr>device_id = ''sensor-1'', token = ''132435465768798a9bacbdcedff00112''\<rparr>,
                \<lparr>device_id = ''sensor-1'', token = ''233445566778899aabbccddeef001122''\<rparr>],
       entropy = sampleEntropy, drawn = 48, console = []\<rparr>)"
  by (simp add: registerDevice_def calm_def registration_def falsy_str_def select_single_def
      single_def generateToken_eq insert_row_def raceWorld_eq Let_def
      toHex_def byteToHex_def hexDigit_def hexDigits_def sampleEntropy_def)

lemma sample_outage_registration:
  "registerDevice selectDown (registration ''sensor-1'') sensorWorld =
     (Response 500 (errorBody ''Error checking device existence.''),
      sensorWorld\<lparr>console := [LogError (Failure ''connection refused'')]\<rparr>)"
  by (simp add: registerDevice_def selectDown_def registration_def falsy_str_def
      select_single_def sensorWorld_eq Let_def)

lemma earlier_eq:
  "serveAll earlier (fresh sampleEntropy) =
     \<lparr>table = [\<lparr>device_id = ''sensor-2'', token = ''031425364758697a8b9cadbecfe0f102''\<rparr>],
      entropy = sampleEntropy, drawn = 16, console = []\<rparr>"
  by (simp add: earlier_def registerDevice_def calm_def registration_def fresh_def falsy_str_def
      select_single_def single_def generateToken_eq insert_row_def sample_token Let_def)

lemma busy_registration:
  "registerDevice calm (registration ''sensor-1'') (serveAll earlier (fresh sampleEntropy)) =
     (Response 201
        (JObj [(''message'', JStr ''Device registered successfully.''),
               (''deviceId'', JStr ''sensor-1''),
               (''token'', JStr ''132435465768798a9bacbdcedff00112'')]),
      \<lparr>table = [\<lparr>device_id = ''sensor-2'', token = ''031425364758697a8b9cadbecfe0f102''\<rparr>,
                \<lparr>device_id = ''sensor-1'', token = ''132435465768798a9bacbdcedff00112''\<rparr>],
       entropy = sampleEntropy, drawn = 32, console = []\<rparr>)"
  by (simp add: earlier_eq)
    (simp add: registerDevice_def calm_def registration_def falsy_str_def select_single_def
      single_def generateToken_eq insert_row_def Let_def
      toHex_def byteToHex_def hexDigit_def hexDigits_def sampleEntropy_def)

lemma busyWorld_eq:
  "busyWorld =
     \<lparr>table = [\<lparr>device_id = ''sensor-2'', token = ''031425364758697a8b9cadbecfe0f102''\<rparr>,
               \<lparr>device_id = ''sensor-1'', token = ''132435465768798a9bacbdcedff00112''\<rparr>,
               \<lparr>device_id = ''sensor-3'', token = ''233445566778899aabbccddeef001122''\<rparr>],
      entropy = sampleEntropy, drawn = 48, console = []\<rparr>"
  by (simp add: busyWorld_def busy_registration afterwards_def)
    (simp add: registerDevice_def calm_def registration_def falsy_str_def select_single_def
      single_def generateToken_eq insert_row_def Let_def
      toHex_def byteToHex_def hexDigit_def hexDigits_def sampleEntropy_def)

section \<open>The claims\<close>

text \<open>
  C1, as amended. Let the service answer its requests one at a time, each handler
  running to its response before the next request is taken, beginning on an empty
  datastore. Let a registration of identifier \<open>D\<close> be answered 201 with token \<open>T\<close>,
  after any requests served before it, and let any requests be served after it. Then a
  request with headers \<open>device = D\<close> and \<open>token = T\<close> passes the middleware whenever
  the datastore answers the lookup, a request with \<open>device = D\<close> and any non-empty
  token other than \<open>T\<close> is answered 403, and a request with \<open>device = D\<close> and an
  empty token is answered 401.
\<close>

theorem issued_token_authenticates:
  assumes "status (fst (registerDevice e req (serveAll before (fresh ent)))) = 201"
    and "body_deviceId req = Some D"
    and "issuedToken (fst (registerDevice e req (serveAll before (fresh ent)))) = Some T"
    and "w = serveAll after (snd (registerDevice e req (serveAll before (fresh ent))))"
    and "hdr_device rq = Some D"
  shows "(hdr_token rq = Some T \<and> select_outage e' = None \<longrightarrow> authenticateDevice e' rq w = Next)
       \<and> (\<forall>T'. hdr_token rq = Some T' \<and> T' \<noteq> T \<and> T' \<noteq> [] \<longrightarrow>
            authenticateDevice e' rq w
              = Respond (Response 403 (errorBody ''Invalid token or unauthorized device.'')))
       \<and> (hdr_token rq = Some [] \<longrightarrow>
            authenticateDevice e' rq w
              = Respond (Response 401 (errorBody ''Device ID and token are required.'')))"
proof -
  let ?w0 = "serveAll before (fresh ent)"
  have T: "T = fst (generateToken ?w0)"
    using issuedToken_created [OF assms(1)] assms(3) by simp
  then have "length T = 32" by (simp add: generateToken_length)
  then have T_present: "T \<noteq> []" by auto
  have D_present: "\<not> falsy_str (hdr_device rq)"
    using registerDevice_created(1) [OF assms(1)] assms(2,5) by (simp add: falsy_str_def)
  have rows: "filter (\<lambda>row. device_id row = D) (table w) = [\<lparr>device_id = D, token = T\<rparr>]"
    using registered_record_unique [OF assms(1), of after] assms(2,4) T by simp
  have both: "filter (\<lambda>row. device_id row = D \<and> token row = t) (table w)
                = filter (\<lambda>row. token row = t) [\<lparr>device_id = D, token = T\<rparr>]" for t
    using rows filter_filter [of "\<lambda>row. token row = t" "\<lambda>row. device_id row = D" "table w"]
    by simp
  have good: "authenticateDevice e' rq w = Next"
    if "hdr_token rq = Some T" and "select_outage e' = None"
  proof (rule authenticateDevice_single [OF D_present _ that(2)])
    show "\<not> falsy_str (hdr_token rq)"
      using that(1) T_present by (simp add: falsy_str_def)
    show "filter (\<lambda>row. device_id row = the (hdr_device rq) \<and> token row = the (hdr_token rq)) (table w)
            = [\<lparr>device_id = D, token = T\<rparr>]"
      using both [of T] that(1) assms(5) by simp
  qed
  have bad: "authenticateDevice e' rq w
               = Respond (Response 403 (errorBody ''Invalid token or unauthorized device.''))"
    if "hdr_token rq = Some T'" and "T' \<noteq> T" and "T' \<noteq> []" for T'
  proof (rule authenticateDevice_not_single [OF D_present])
    show "\<not> falsy_str (hdr_token rq)"
      using that(1,3) by (simp add: falsy_str_def)
    show "length (filter (\<lambda>row. device_id row = the (hdr_device rq) \<and> token row = the (hdr_token rq))
            (table w)) \<noteq> 1"
      using both [of T'] that(1,2) assms(5) by simp
  qed
  have empty: "authenticateDevice e' rq w
               = Respond (Response 401 (errorBody ''Device ID and token are required.''))"
    if "hdr_token rq = Some []"
    using that by (simp add: authenticateDevice_required falsy_str_def)
  from good bad empty show ?thesis by blast
qed

theorem issued_token_authenticates_witness:
  "status (fst (registerDevice calm (registration ''sensor-1'') (serveAll earlier (fresh sampleEntropy)))) = 201
   \<and> issuedToken (fst (registerDevice calm (registration ''sensor-1'') (serveAll earlier (fresh sampleEntropy))))
       = Some ''132435465768798a9bacbdcedff00112''
   \<and> table busyWorld
       = [\<lparr>device_id = ''sensor-2'', token = ''031425364758697a8b9cadbecfe0f102''\<rparr>,
          \<lparr>device_id = ''sensor-1'', token = ''132435465768798a9bacbdcedff00112''\<rparr>,
          \<lparr>device_id = ''sensor-3'', token = ''233445566778899aabbccddeef001122''\<rparr>]
   \<and> authenticateDevice calm (upload ''sensor-1'' ''132435465768798a9bacbdcedff00112'' None) busyWorld = Next
   \<and> authenticateDevice calm (upload ''sensor-1'' ''wrong'' None) busyWorld
       = Respond (Response 403 (errorBody ''Invalid token or unauthorized device.''))
   \<and> authenticateDevice calm (upload ''sensor-1'' ''031425364758697a8b9cadbecfe0f102'' None) busyWorld
       = Respond (Response 403 (errorBody ''Invalid token or unauthorized device.''))
   \<and> authenticateDevice selectDown (upload ''sensor-1'' ''wrong'' None) busyWorld
       = Respond (Response 403 (errorBody ''Invalid token or unauthorized device.''))
   \<and> authenticateDevice calm (upload ''sensor-1'' [] None) busyWorld
       = Respond (Response 401 (errorBody ''Device ID and token are required.''))"
proof -
  have created: "status (fst (registerDevice calm (registration ''sensor-1'') (serveAll earlier (fresh sampleEntropy)))) = 201"
    by (simp add: busy_registration)
  have sent: "body_deviceId (registration ''sensor-1'') = Some ''sensor-1''"
    by (simp add: registration_def)
  have got: "issuedToken (fst (registerDevice calm (registration ''sensor-1'') (serveAll earlier (fresh sampleEntropy))))
      = Some ''132435465768798a9bacbdcedff00112''"
    by (simp add: busy_registration issuedToken_def)
  have later: "busyWorld
      = serveAll afterwards (snd (registerDevice calm (registration ''sensor-1'') (serveAll earlier (fresh sampleEntropy))))"
    by (simp add: busyWorld_def)
  have right: "hdr_device (upload ''sensor-1'' ''132435465768798a9bacbdcedff00112'' None) = Some ''sensor-1''"
    and wrong: "hdr_device (upload ''sensor-1'' ''wrong'' None) = Some ''sensor-1''"
    and other: "hdr_device (upload ''sensor-1'' ''031425364758697a8b9cadbecfe0f102'' None) = Some ''sensor-1''"
    and empty: "hdr_device (upload ''sensor-1'' [] None) = Some ''sensor-1''"
    by (simp_all add: upload_def)
  have rows: "table busyWorld
       = [\<lparr>device_id = ''sensor-2'', token = ''031425364758697a8b9cadbecfe0f102''\<rparr>,
          \<lparr>device_id = ''sensor-1'', token = ''132435465768798a9bacbdcedff00112''\<rparr>,
          \<lparr>device_id = ''sensor-3'', token = ''233445566778899aabbccddeef001122''\<rparr>]"
    by (simp add: busyWorld_eq)
  from issued_token_authenticates [OF created sent got later right, of calm]
    issued_token_authenticates [OF created sent got later wrong, of calm]
    issued_token_authenticates [OF created sent got later other, of calm]
    issued_token_authenticates [OF created sent got later wrong, of selectDown]
    issued_token_authenticates [OF created sent got later empty, of calm]
    created got rows
  show ?thesis
    by (simp add: upload_def calm_def)
qed

text \<open>
  C1, as stated, fails in three ways. After \<open>sensor-1\<close> has registered and received its
  token, a request with \<open>device = sensor-1\<close> and an empty \<open>token\<close> header, a value
  different from the token issued, is answered 401 and not 403. A request with the
  token issued is answered 403 while the datastore is down, although the table holds
  exactly the record the registration inserted. And when two registrations of
  \<open>sensor-1\<close> overlap, both existence checks being answered from the empty table before
  either insert, both are answered 201, the table holds exactly the two records they
  inserted, and the second token, different from the first, passes the middleware.
\<close>

theorem issued_token_round_trip_fails:
  "status (fst (registerDevice calm (registration ''sensor-1'') (fresh sampleEntropy))) = 201
   \<and> issuedToken (fst (registerDevice calm (registration ''sensor-1'') (fresh sampleEntropy)))
       = Some ''031425364758697a8b9cadbecfe0f102''
   \<and> sensorWorld = snd (registerDevice calm (registration ''sensor-1'') (fresh sampleEntropy))
   \<and> [] \<noteq> ''031425364758697a8b9cadbecfe0f102''
   \<and> hdr_device (upload ''sensor-1'' [] None) = Some ''sensor-1''
   \<and> hdr_token (upload ''sensor-1'' [] None) = Some []
   \<and> rejected 401 (authenticateDevice calm (upload ''sensor-1'' [] None) sensorWorld)
   \<and> \<not> rejected 403 (authenticateDevice calm (upload ''sensor-1'' [] None) sensorWorld)
   \<and> table sensorWorld = [\<lparr>device_id = ''sensor-1'', token = ''031425364758697a8b9cadbecfe0f102''\<rparr>]
   \<and> authenticateDevice selectDown (upload ''sensor-1'' ''031425364758697a8b9cadbecfe0f102'' None) sensorWorld
       \<noteq> Next
   \<and> rejected 403
        (authenticateDevice selectDown (upload ''sensor-1'' ''031425364758697a8b9cadbecfe0f102'' None) sensorWorld)
   \<and> registerCheck calm (registration ''sensor-1'') (fresh sampleEntropy) = None
   \<and> status (fst (registerInsert calm (registration ''sensor-1'') (fresh sampleEntropy))) = 201
   \<and> issuedToken (fst (registerInsert calm (registration ''sensor-1'') (fresh sampleEntropy)))
       = Some ''031425364758697a8b9cadbecfe0f102''
   \<and> status (fst (registerInsert calm (registration ''sensor-1'')
         (snd (registerInsert calm (registration ''sensor-1'') (fresh sampleEntropy))))) = 201
   \<and> issuedToken (fst (registerInsert calm (registration ''sensor-1'')
         (snd (registerInsert calm (registration ''sensor-1'') (fresh sampleEntropy)))))
       = Some ''132435465768798a9bacbdcedff00112''
   \<and> table raceWorld
       = [\<lparr>device_id = ''sensor-1'', token = ''031425364758697a8b9cadbecfe0f102''\<rparr>,
          \<lparr>device_id = ''sensor-1'', token = ''132435465768798a9bacbdcedff00112''\<rparr>]
   \<and> ''132435465768798a9bacbdcedff00112'' \<noteq> ''031425364758697a8b9cadbecfe0f102''
   \<and> authenticateDevice calm (upload ''sensor-1'' ''132435465768798a9bacbdcedff00112'' None) raceWorld = Next
   \<and> \<not> rejected 403
        (authenticateDevice calm (upload ''sensor-1'' ''132435465768798a9bacbdcedff00112'' None) raceWorld)"
proof -
  have "status (fst (registerDevice calm (registration ''sensor-1'') (fresh sampleEntropy))) = 201"
    by (simp add: sample_registration)
  moreover have "issuedToken (fst (registerDevice calm (registration ''sensor-1'') (fresh sampleEntropy)))
       = Some ''031425364758697a8b9cadbecfe0f102''"
    by (simp add: sample_registration issuedToken_def)
  moreover have "sensorWorld = snd (registerDevice calm (registration ''sensor-1'') (fresh sampleEntropy))"
    by (simp add: sensorWorld_def)
  moreover have "[] \<noteq> ''031425364758697a8b9cadbecfe0f102''"
    by simp
  moreover have "hdr_device (upload ''sensor-1'' [] None) = Some ''sensor-1''"
    and "hdr_token (upload ''sensor-1'' [] None) = Some []"
    by (simp_all add: upload_def)
  moreover have "rejected 401 (authenticateDevice calm (upload ''sensor-1'' [] None) sensorWorld)"
    and "\<not> rejected 403 (authenticateDevice calm (upload ''sensor-1'' [] None) sensorWorld)"
    by (simp_all add: upload_def authenticateDevice_def falsy_str_def rejected_def)
  moreover have "table sensorWorld = [\<lparr>device_id = ''sensor-1'', token = ''031425364758697a8b9cadbecfe0f102''\<rparr>]"
    by (simp add: sensorWorld_eq)
  moreover have down: "authenticateDevice selectDown (upload ''sensor-1'' ''031425364758697a8b9cadbecfe0f102'' None) sensorWorld
      = Respond (Response 403 (errorBody ''Invalid token or unauthorized device.''))"
    by (simp add: upload_def authenticateDevice_def falsy_str_def selectDown_def select_single_def Let_def)
  moreover have "registerCheck calm (registration ''sensor-1'') (fresh sampleEntropy) = None"
    by (rule race_check)
  moreover have "status (fst (registerInsert calm (registration ''sensor-1'') (fresh sampleEntropy))) = 201"
    and "issuedToken (fst (registerInsert calm (registration ''sensor-1'') (fresh sampleEntropy)))
       = Some ''031425364758697a8b9cadbecfe0f102''"
    by (simp_all add: race_first_insert issuedToken_def)
  moreover have "status (fst (registerInsert calm (registration ''sensor-1'')
         (snd (registerInsert calm (registration ''sensor-1'') (fresh sampleEntropy))))) = 201"
    and "issuedToken (fst (registerInsert calm (registration ''sensor-1'')
         (snd (registerInsert calm (registration ''sensor-1'') (fresh sampleEntropy)))))
       = Some ''132435465768798a9bacbdcedff00112''"
    by (simp_all add: race_first_insert race_second_insert issuedToken_def)
  moreover have "table raceWorld
       = [\<lparr>device_id = ''sensor-1'', token = ''031425364758697a8b9cadbecfe0f102''\<rparr>,
          \<lparr>device_id = ''sensor-1'', token = ''132435465768798a9bacbdcedff00112''\<rparr>]"
    by (simp add: raceWorld_eq)
  moreover have "''132435465768798a9bacbdcedff00112'' \<noteq> ''031425364758697a8b9cadbecfe0f102''"
    by simp
  moreover have race: "authenticateDevice calm (upload ''sensor-1'' ''132435465768798a9bacbdcedff00112'' None) raceWorld = Next"
    by (simp add: upload_def authenticateDevice_def falsy_str_def calm_def select_single_def
        single_def raceWorld_eq Let_def)
  moreover from down have "authenticateDevice selectDown
      (upload ''sensor-1'' ''031425364758697a8b9cadbecfe0f102'' None) sensorWorld \<noteq> Next"
    and "rejected 403 (authenticateDevice selectDown
      (upload ''sensor-1'' ''031425364758697a8b9cadbecfe0f102'' None) sensorWorld)"
    by (simp_all add: rejected_def)
  moreover from race have "\<not> rejected 403
      (authenticateDevice calm (upload ''sensor-1'' ''132435465768798a9bacbdcedff00112'' None) raceWorld)"
    by (simp add: rejected_def)
  ultimately show ?thesis
    by (intro conjI)
qed

text \<open>
  C2, as amended. The middleware answers 401 exactly when the \<open>device\<close> header or the
  \<open>token\<close> header is missing or empty. When both are present and non-empty, it answers
  403 if the datastore is down or no record has both that identifier and that token,
  and it calls \<open>next()\<close> only if the datastore answered and some record has both.
\<close>

theorem authentication_outcomes:
  "(rejected 401 (authenticateDevice e req w)
      \<longleftrightarrow> falsy_str (hdr_device req) \<or> falsy_str (hdr_token req))
   \<and> (\<not> falsy_str (hdr_device req) \<and> \<not> falsy_str (hdr_token req)
        \<and> (select_outage e \<noteq> None
            \<or> (\<forall>row \<in> set (table w).
                 \<not> (device_id row = the (hdr_device req) \<and> token row = the (hdr_token req))))
      \<longrightarrow> authenticateDevice e req w
            = Respond (Response 403 (errorBody ''Invalid token or unauthorized device.'')))
   \<and> (authenticateDevice e req w = Next
      \<longrightarrow> \<not> falsy_str (hdr_device req) \<and> \<not> falsy_str (hdr_token req) \<and> select_outage e = None
          \<and> (\<exists>row \<in> set (table w).
                device_id row = the (hdr_device req) \<and> token row = the (hdr_token req)))"
proof -
  have required: "rejected 401 (authenticateDevice e req w)
          \<longleftrightarrow> falsy_str (hdr_device req) \<or> falsy_str (hdr_token req)"
    by (simp add: authenticateDevice_def rejected_def Let_def)
  have invalid: "authenticateDevice e req w
          = Respond (Response 403 (errorBody ''Invalid token or unauthorized device.''))"
    if h: "\<not> falsy_str (hdr_device req) \<and> \<not> falsy_str (hdr_token req)
        \<and> (select_outage e \<noteq> None
            \<or> (\<forall>row \<in> set (table w).
                 \<not> (device_id row = the (hdr_device req) \<and> token row = the (hdr_token req))))"
  proof (cases "select_outage e")
    case (Some msg)
    with h show ?thesis by (simp add: authenticateDevice_outage)
  next
    case None
    with h have "filter (\<lambda>row. device_id row = the (hdr_device req) \<and> token row = the (hdr_token req))
                   (table w) = []"
      by (simp add: filter_empty_conv)
    with h show ?thesis by (simp add: authenticateDevice_not_single)
  qed
  have matched: "\<not> falsy_str (hdr_device req) \<and> \<not> falsy_str (hdr_token req) \<and> select_outage e = None
          \<and> (\<exists>row \<in> set (table w).
                device_id row = the (hdr_device req) \<and> token row = the (hdr_token req))"
    if n: "authenticateDevice e req w = Next"
  proof -
    let ?rows = "filter (\<lambda>row. device_id row = the (hdr_device req) \<and> token row = the (hdr_token req)) (table w)"
    from authenticateDevice_next(4) [OF n] obtain r where "?rows = [r]"
      by (auto simp: length_Suc_conv)
    then have "r \<in> set ?rows" by simp
    then have "\<exists>row \<in> set (table w).
        device_id row = the (hdr_device req) \<and> token row = the (hdr_token req)"
      by auto
    with authenticateDevice_next(1-3) [OF n] show ?thesis by simp
  qed
  from required invalid matched show ?thesis by blast
qed

theorem authentication_outcomes_witness:
  "rejected 401 (authenticateDevice calm (registration ''sensor-1'') sensorWorld)
   \<and> falsy_str (hdr_device (registration ''sensor-1''))
   \<and> \<not> falsy_str (hdr_device (upload ''sensor-1'' ''wrong'' None))
   \<and> \<not> falsy_str (hdr_token (upload ''sensor-1'' ''wrong'' None))
   \<and> authenticateDevice calm (upload ''sensor-1'' ''wrong'' None) sensorWorld
       = Respond (Response 403 (errorBody ''Invalid token or unauthorized device.''))
   \<and> authenticateDevice calm (upload ''sensor-1'' ''031425364758697a8b9cadbecfe0f102'' None) sensorWorld = Next
   \<and> select_outage calm = None"
  using authentication_outcomes [of calm "registration ''sensor-1''" sensorWorld]
    authentication_outcomes [of calm "upload ''sensor-1'' ''wrong'' None" sensorWorld]
    authentication_outcomes [of calm "upload ''sensor-1'' ''031425364758697a8b9cadbecfe0f102'' None" sensorWorld]
    sample_authentication [of None]
  by (simp add: registration_def upload_def falsy_str_def sensorWorld_eq calm_def)

text \<open>
  C2, as stated, fails for an empty header: with both headers present and the
  \<open>device\<close> header empty, the middleware answers 401 although neither header is missing.
\<close>

theorem empty_header_is_answered_401:
  "hdr_device (upload '''' ''031425364758697a8b9cadbecfe0f102'' None) \<noteq> None
   \<and> hdr_token (upload '''' ''031425364758697a8b9cadbecfe0f102'' None) \<noteq> None
   \<and> rejected 401
        (authenticateDevice calm (upload '''' ''031425364758697a8b9cadbecfe0f102'' None) sensorWorld)"
  by (simp add: upload_def authenticateDevice_def falsy_str_def rejected_def)

text \<open>
  C3. Every token issued by a registration answered 201 is the hex encoding of 16 random
  bytes: the response carries \<open>toHex\<close> of the 16 bytes drawn by \<open>randomBytes\<close>, a string
  of exactly 32 characters, each a digit or a lowercase letter from \<open>a\<close> to \<open>f\<close>.
\<close>

theorem issued_token_is_hex_of_16_bytes:
  assumes "status (fst (registerDevice e req w)) = 201"
  shows "issuedToken (fst (registerDevice e req w)) = Some (toHex (fst (randomBytes 16 w)))
       \<and> length (fst (randomBytes 16 w)) = 16
       \<and> length (toHex (fst (randomBytes 16 w))) = 32
       \<and> set (toHex (fst (randomBytes 16 w))) \<subseteq> set ''0123456789abcdef''"
proof -
  have "issuedToken (fst (registerDevice e req w)) = Some (toHex (fst (randomBytes 16 w)))"
    using issuedToken_created [OF assms] by (simp add: generateToken_def Let_def split_def)
  moreover have "length (fst (randomBytes 16 w)) = 16"
    by (simp add: randomBytes_def)
  moreover have "length (toHex (fst (randomBytes 16 w))) = 32"
    by (simp add: toHex_length randomBytes_def)
  moreover have "set (toHex (fst (randomBytes 16 w))) \<subseteq> set ''0123456789abcdef''"
    using toHex_chars [of "fst (randomBytes 16 w)"] by (simp only: hexDigits_def)
  ultimately show ?thesis by simp
qed

theorem issued_token_is_hex_of_16_bytes_witness:
  "status (fst (registerDevice calm (registration ''sensor-1'') (fresh sampleEntropy))) = 201
   \<and> issuedToken (fst (registerDevice calm (registration ''sensor-1'') (fresh sampleEntropy)))
       = Some ''031425364758697a8b9cadbecfe0f102''
   \<and> length ''031425364758697a8b9cadbecfe0f102'' = 32"
proof -
  have created: "status (fst (registerDevice calm (registration ''sensor-1'') (fresh sampleEntropy))) = 201"
    by (simp add: sample_registration)
  from issued_token_is_hex_of_16_bytes [OF created] show ?thesis
    by (simp add: sample_registration issuedToken_def)
qed

text \<open>
  C4, as amended. A registration whose existence check finds a record for the
  identifier sent is answered 400 and leaves the whole state as it was: no random byte
  is drawn for a token and no row is inserted. In particular, when the service answers
  its requests one at a time, each handler running to its response before the next
  request is taken, beginning on an empty datastore, then once an identifier has been
  registered, registering it again is answered 400 whenever the datastore answers the
  existence check.
\<close>

theorem conflict_is_answered_400:
  "(\<not> falsy_str (body_deviceId req)
      \<and> data (select_single (select_outage e) (\<lambda>row. device_id row = the (body_deviceId req)) w) \<noteq> None
     \<longrightarrow> registerDevice e req w = (Response 400 (errorBody ''Device ID is already registered.''), w))
   \<and> (status (fst (registerDevice e1 req1 (serveAll before (fresh ent)))) = 201
      \<and> w = serveAll after (snd (registerDevice e1 req1 (serveAll before (fresh ent))))
      \<and> body_deviceId req = body_deviceId req1 \<and> select_outage e = None
     \<longrightarrow> registerDevice e req w = (Response 400 (errorBody ''Device ID is already registered.''), w))"
proof -
  have found: "registerDevice e req w = (Response 400 (errorBody ''Device ID is already registered.''), w)"
    if present: "\<not> falsy_str (body_deviceId req)"
      and hit: "data (select_single (select_outage e) (\<lambda>row. device_id row = the (body_deviceId req)) w) \<noteq> None"
  proof -
    from hit have up: "select_outage e = None"
      by (cases "select_outage e") (simp_all add: select_single_def)
    have "length (filter (\<lambda>row. device_id row = the (body_deviceId req)) (table w)) = 1"
    proof (rule ccontr)
      assume "length (filter (\<lambda>row. device_id row = the (body_deviceId req)) (table w)) \<noteq> 1"
      with hit up show False by (simp add: select_single_def single_miss)
    qed
    then obtain r where "filter (\<lambda>row. device_id row = the (body_deviceId req)) (table w) = [r]"
      by (auto simp: length_Suc_conv)
    with present up show ?thesis by (rule registerDevice_conflict)
  qed
  have again: "registerDevice e req w = (Response 400 (errorBody ''Device ID is already registered.''), w)"
    if created: "status (fst (registerDevice e1 req1 (serveAll before (fresh ent)))) = 201"
      and later: "w = serveAll after (snd (registerDevice e1 req1 (serveAll before (fresh ent))))"
      and same: "body_deviceId req = body_deviceId req1"
      and up: "select_outage e = None"
  proof -
    have present: "\<not> falsy_str (body_deviceId req)"
      using registerDevice_created(1) [OF created] same by simp
    have "filter (\<lambda>row. device_id row = the (body_deviceId req)) (table w)
            = [\<lparr>device_id = the (body_deviceId req1),
                 token = fst (generateToken (serveAll before (fresh ent)))\<rparr>]"
      using registered_record_unique [OF created, of after] later same by simp
    with present up show ?thesis by (rule registerDevice_conflict)
  qed
  show ?thesis
  proof (intro conjI impI)
    assume "\<not> falsy_str (body_deviceId req)
      \<and> data (select_single (select_outage e) (\<lambda>row. device_id row = the (body_deviceId req)) w) \<noteq> None"
    then show "registerDevice e req w = (Response 400 (errorBody ''Device ID is already registered.''), w)"
      by (elim conjE) (rule found)
  next
    assume "status (fst (registerDevice e1 req1 (serveAll before (fresh ent)))) = 201
      \<and> w = serveAll after (snd (registerDevice e1 req1 (serveAll before (fresh ent))))
      \<and> body_deviceId req = body_deviceId req1 \<and> select_outage e = None"
    then show "registerDevice e req w = (Response 400 (errorBody ''Device ID is already registered.''), w)"
      by (elim conjE) (rule again)
  qed
qed

theorem conflict_is_answered_400_witness:
  "status (fst (registerDevice calm (registration ''sensor-1'') (serveAll earlier (fresh sampleEntropy)))) = 201
   \<and> busyWorld = serveAll afterwards
        (snd (registerDevice calm (registration ''sensor-1'') (serveAll earlier (fresh sampleEntropy))))
   \<and> select_outage insertDown = None
   \<and> data (select_single (select_outage insertDown)
        (\<lambda>row. device_id row = the (body_deviceId (registration ''sensor-1''))) busyWorld)
      = Some \<lparr>device_id = ''sensor-1'', token = ''132435465768798a9bacbdcedff00112''\<rparr>
   \<and> registerDevice insertDown (registration ''sensor-1'') busyWorld
      = (Response 400 (errorBody ''Device ID is already registered.''), busyWorld)
   \<and> registerDevice calm (upload ''x'' ''y'' None\<lparr>body_deviceId := Some ''sensor-1''\<rparr>) busyWorld
      = (Response 400 (errorBody ''Device ID is already registered.''), busyWorld)"
proof -
  have created: "status (fst (registerDevice calm (registration ''sensor-1'') (serveAll earlier (fresh sampleEntropy)))) = 201"
    by (simp add: busy_registration)
  have later: "busyWorld = serveAll afterwards
        (snd (registerDevice calm (registration ''sensor-1'') (serveAll earlier (fresh sampleEntropy))))"
    by (simp add: busyWorld_def)
  have up: "select_outage insertDown = None" "select_outage calm = None"
    by (simp_all add: insertDown_def calm_def)
  have hit: "data (select_single (select_outage insertDown)
        (\<lambda>row. device_id row = the (body_deviceId (registration ''sensor-1''))) busyWorld)
      = Some \<lparr>device_id = ''sensor-1'', token = ''132435465768798a9bacbdcedff00112''\<rparr>"
    by (simp add: select_single_def single_def insertDown_def registration_def busyWorld_eq)
  have same: "body_deviceId (upload ''x'' ''y'' None\<lparr>body_deviceId := Some ''sensor-1''\<rparr>)
      = body_deviceId (registration ''sensor-1'')"
    by (simp add: upload_def registration_def)
  from created later up hit same
    conflict_is_answered_400 [of "registration ''sensor-1''" insertDown busyWorld calm
      "registration ''sensor-1''" earlier sampleEntropy afterwards]
    conflict_is_answered_400 [of "upload ''x'' ''y'' None\<lparr>body_deviceId := Some ''sensor-1''\<rparr>" calm busyWorld calm
      "registration ''sensor-1''" earlier sampleEntropy afterwards]
  show ?thesis
    by (simp add: registration_sent falsy_str_def)
qed

text \<open>
  C4, as stated, fails in its second half. After \<open>sensor-1\<close> has registered, a second
  registration of \<open>sensor-1\<close> made while the datastore is down for reads is answered
  500. And after two overlapping registrations of \<open>sensor-1\<close> have both been answered
  201, the table holds the identifier twice, the existence check of a further
  registration ends in \<open>PGRST116\<close>, and that registration is answered 201 and inserts
  a third record.
\<close>

theorem registered_identifier_not_answered_400:
  "status (fst (registerDevice calm (registration ''sensor-1'') (fresh sampleEntropy))) = 201
   \<and> sensorWorld = snd (registerDevice calm (registration ''sensor-1'') (fresh sampleEntropy))
   \<and> status (fst (registerDevice selectDown (registration ''sensor-1'') sensorWorld)) = 500
   \<and> registerCheck calm (registration ''sensor-1'') (fresh sampleEntropy) = None
   \<and> status (fst (registerInsert calm (registration ''sensor-1'') (fresh sampleEntropy))) = 201
   \<and> status (fst (registerInsert calm (registration ''sensor-1'')
         (snd (registerInsert calm (registration ''sensor-1'') (fresh sampleEntropy))))) = 201
   \<and> raceWorld = snd (registerInsert calm (registration ''sensor-1'')
         (snd (registerInsert calm (registration ''sensor-1'') (fresh sampleEntropy))))
   \<and> error (select_single (select_outage calm) (\<lambda>row. device_id row = ''sensor-1'') raceWorld)
       = Some PGRST116
   \<and> status (fst (registerDevice calm (registration ''sensor-1'') raceWorld)) = 201
   \<and> table (snd (registerDevice calm (registration ''sensor-1'') raceWorld))
       = [\<lparr>device_id = ''sensor-1'', token = ''031425364758697a8b9cadbecfe0f102''\<rparr>,
          \<lparr>device_id = ''sensor-1'', token = ''132435465768798a9bacbdcedff00112''\<rparr>,
          \<lparr>device_id = ''sensor-1'', token = ''233445566778899aabbccddeef001122''\<rparr>]"
proof -
  have "status (fst (registerDevice calm (registration ''sensor-1'') (fresh sampleEntropy))) = 201"
    by (simp add: sample_registration)
  moreover have "sensorWorld = snd (registerDevice calm (registration ''sensor-1'') (fresh sampleEntropy))"
    by (simp add: sensorWorld_def)
  moreover have "status (fst (registerDevice selectDown (registration ''sensor-1'') sensorWorld)) = 500"
    by (simp add: sample_outage_registration)
  moreover have "registerCheck calm (registration ''sensor-1'') (fresh sampleEntropy) = None"
    by (rule race_check)
  moreover have "status (fst (registerInsert calm (registration ''sensor-1'') (fresh sampleEntropy))) = 201"
    by (simp add: race_first_insert)
  moreover have "status (fst (registerInsert calm (registration ''sensor-1'')
         (snd (registerInsert calm (registration ''sensor-1'') (fresh sampleEntropy))))) = 201"
    by (simp add: race_first_insert race_second_insert)
  moreover have "raceWorld = snd (registerInsert calm (registration ''sensor-1'')
         (snd (registerInsert calm (registration ''sensor-1'') (fresh sampleEntropy))))"
    by (simp add: raceWorld_def)
  moreover have "error (select_single (select_outage calm) (\<lambda>row. device_id row = ''sensor-1'') raceWorld)
       = Some PGRST116"
    by (simp add: select_single_def single_def calm_def raceWorld_eq)
  moreover have "status (fst (registerDevice calm (registration ''sensor-1'') raceWorld)) = 201"
    by (simp add: race_third_registration)
  moreover have "table (snd (registerDevice calm (registration ''sensor-1'') raceWorld))
       = [\<lparr>device_id = ''sensor-1'', token = ''031425364758697a8b9cadbecfe0f102''\<rparr>,
          \<lparr>device_id = ''sensor-1'', token = ''132435465768798a9bacbdcedff00112''\<rparr>,
          \<lparr>device_id = ''sensor-1'', token = ''233445566778899aabbccddeef001122''\<rparr>]"
    by (simp add: race_third_registration)
  ultimately show ?thesis
    by (intro conjI)
qed

text \<open>
  C5. A registration is answered 500 exactly when the existence check was made and
  failed with an error other than \<open>PGRST116\<close>, or the insert was reached and failed.
  An existence check that ends in \<open>PGRST116\<close> reaches the insert: the answer is 201 with
  the new record appended when the insert succeeds, and 500 when it fails.
\<close>

theorem registration_dependency_failures:
  "(let deviceId = the (body_deviceId req);
        check = select_single (select_outage e) (\<lambda>row. device_id row = deviceId) w;
        checkFailed = (\<exists>fetchError. error check = Some fetchError \<and> fetchError \<noteq> PGRST116);
        inserted = insert_row (insert_outage e)
                     \<lparr>device_id = deviceId, token = fst (generateToken w)\<rparr> (snd (generateToken w));
        reached = (\<not> falsy_str (body_deviceId req) \<and> \<not> checkFailed \<and> data check = None)
    in (status (fst (registerDevice e req w)) = 500
          \<longleftrightarrow> (\<not> falsy_str (body_deviceId req) \<and> checkFailed) \<or> (reached \<and> fst inserted \<noteq> None))
     \<and> (\<not> falsy_str (body_deviceId req) \<and> error check = Some PGRST116
          \<longrightarrow> reached
            \<and> (fst inserted = None \<longrightarrow>
                  status (fst (registerDevice e req w)) = 201
                  \<and> snd (registerDevice e req w) = snd inserted
                  \<and> table (snd inserted)
                      = table w @ [\<lparr>device_id = deviceId, token = fst (generateToken w)\<rparr>])
            \<and> (fst inserted \<noteq> None \<longrightarrow>
                  fst (registerDevice e req w)
                    = Response 500 (errorBody ''Error registering device.''))))"
proof (cases "falsy_str (body_deviceId req)")
  case True
  then show ?thesis by (simp add: registerDevice_missing Let_def)
next
  case present: False
  show ?thesis
  proof (cases "select_outage e")
    case (Some msg)
    with present show ?thesis
      by (simp add: registerDevice_outage Let_def select_single_def)
  next
    case up: None
    show ?thesis
    proof (cases "length (filter (\<lambda>row. device_id row = the (body_deviceId req)) (table w)) = 1")
      case True
      then obtain r where r: "filter (\<lambda>row. device_id row = the (body_deviceId req)) (table w) = [r]"
        by (auto simp: length_Suc_conv)
      from registerDevice_conflict [OF present up r] present up r show ?thesis
        by (simp add: Let_def select_single_def single_hit)
    next
      case False
      with present up show ?thesis
        by (cases "insert_outage e")
          (simp_all add: registerDevice_insert_failed registerDevice_inserted Let_def
            select_single_def single_miss insert_row_def generateToken_eq)
    qed
  qed
qed

theorem registration_dependency_failures_witness:
  "error (select_single (select_outage selectDown)
       (\<lambda>row. device_id row = ''sensor-1'') (fresh sampleEntropy)) = Some (Failure ''connection refused'')
   \<and> status (fst (registerDevice selectDown (registration ''sensor-1'') (fresh sampleEntropy))) = 500
   \<and> error (select_single (select_outage insertDown)
       (\<lambda>row. device_id row = ''sensor-1'') (fresh sampleEntropy)) = Some PGRST116
   \<and> fst (registerDevice insertDown (registration ''sensor-1'') (fresh sampleEntropy))
       = Response 500 (errorBody ''Error registering device.'')
   \<and> error (select_single (select_outage calm)
       (\<lambda>row. device_id row = ''sensor-1'') (fresh sampleEntropy)) = Some PGRST116
   \<and> status (fst (registerDevice calm (registration ''sensor-1'') (fresh sampleEntropy))) = 201
   \<and> status (fst (registerDevice calm (registration ''sensor-1'') sensorWorld)) \<noteq> 500"
proof -
  have down: "error (select_single (select_outage selectDown)
       (\<lambda>row. device_id row = ''sensor-1'') (fresh sampleEntropy)) = Some (Failure ''connection refused'')"
    by (simp add: select_single_def selectDown_def)
  have missing: "error (select_single (select_outage insertDown)
       (\<lambda>row. device_id row = ''sensor-1'') (fresh sampleEntropy)) = Some PGRST116"
    "error (select_single (select_outage calm)
       (\<lambda>row. device_id row = ''sensor-1'') (fresh sampleEntropy)) = Some PGRST116"
    by (simp_all add: select_single_def single_def insertDown_def calm_def fresh_def)
  have found: "select_single (select_outage calm) (\<lambda>row. device_id row = ''sensor-1'') sensorWorld
      = Reply (Some \<lparr>device_id = ''sensor-1'', token = ''031425364758697a8b9cadbecfe0f102''\<rparr>) None"
    by (simp add: select_single_def single_def calm_def sensorWorld_eq)
  have sent: "body_deviceId (registration ''sensor-1'') = Some ''sensor-1''"
    by (simp add: registration_def)
  have writes: "insert_outage selectDown = None" "insert_outage calm = None"
    "insert_outage insertDown = Some ''connection refused''"
    by (simp_all add: selectDown_def calm_def insertDown_def)
  from registration_dependency_failures [of "registration ''sensor-1''" selectDown "fresh sampleEntropy"]
    registration_dependency_failures [of "registration ''sensor-1''" insertDown "fresh sampleEntropy"]
    registration_dependency_failures [of "registration ''sensor-1''" calm "fresh sampleEntropy"]
    registration_dependency_failures [of "registration ''sensor-1''" calm sensorWorld]
    down missing
  show ?thesis
    by (simp add: Let_def sent found writes falsy_str_def insert_row_def)
qed

text \<open>
  C6. For every upload request that passes authentication (the middleware calls
  \<open>next()\<close>): when the \<open>data\<close> field of the body is absent or falsy the handler answers
  400, and when it is present and truthy the handler answers 200 with a success message.
\<close>

theorem upload_after_authentication:
  assumes "authenticateDevice e req w = Next"
  shows "(falsy (body_data req) \<longrightarrow>
            fst (uploadData e req w) = Response 400 (errorBody ''Data is required for upload.''))
       \<and> (\<not> falsy (body_data req) \<longrightarrow>
            fst (uploadData e req w) = Response 200 (messageBody ''Data uploaded successfully.''))"
  using assms by (simp add: uploadData_def uploadHandler_def)

theorem upload_after_authentication_witness:
  "authenticateDevice calm
     (upload ''sensor-1'' ''031425364758697a8b9cadbecfe0f102'' (Some (JObj [(''temp'', JNum (43 / 2))])))
     sensorWorld = Next
   \<and> fst (uploadData calm
       (upload ''sensor-1'' ''031425364758697a8b9cadbecfe0f102'' (Some (JObj [(''temp'', JNum (43 / 2))])))
       sensorWorld) = Response 200 (messageBody ''Data uploaded successfully.'')
   \<and> authenticateDevice calm (upload ''sensor-1'' ''031425364758697a8b9cadbecfe0f102'' (Some (JStr [])))
       sensorWorld = Next
   \<and> fst (uploadData calm
       (upload ''sensor-1'' ''031425364758697a8b9cadbecfe0f102'' (Some (JStr [])))
       sensorWorld) = Response 400 (errorBody ''Data is required for upload.'')"
  using upload_after_authentication
      [OF sample_authentication [of "Some (JObj [(''temp'', JNum (43 / 2))])"]]
    upload_after_authentication [OF sample_authentication [of "Some (JStr [])"]]
    sample_authentication
  by (simp add: upload_def falsy_def)

text \<open>
  C7. The upload route writes nothing to the datastore: for every request the rows of
  the table are the same before and after. A payload answered 200 is appended to the
  console and kept nowhere else; any other answer leaves the whole state as it was.
\<close>

theorem upload_writes_nothing:
  "table (snd (uploadData e req w)) = table w
   \<and> (status (fst (uploadData e req w)) = 200 \<longrightarrow>
        snd (uploadData e req w)
          = w\<lparr>console := console w @ [LogData (hdr_device req) (the (body_data req))]\<rparr>)
   \<and> (status (fst (uploadData e req w)) \<noteq> 200 \<longrightarrow> snd (uploadData e req w) = w)"
  by (simp add: uploadData_def uploadHandler_def authenticateDevice_def Let_def split: verdict.split)

theorem upload_writes_nothing_witness:
  "status (fst (uploadData calm
       (upload ''sensor-1'' ''031425364758697a8b9cadbecfe0f102'' (Some (JNum 7))) sensorWorld)) = 200
   \<and> table (snd (uploadData calm
       (upload ''sensor-1'' ''031425364758697a8b9cadbecfe0f102'' (Some (JNum 7))) sensorWorld))
      = [\<lparr>device_id = ''sensor-1'', token = ''031425364758697a8b9cadbecfe0f102''\<rparr>]
   \<and> console (snd (uploadData calm
       (upload ''sensor-1'' ''031425364758697a8b9cadbecfe0f102'' (Some (JNum 7))) sensorWorld))
      = [LogData (Some ''sensor-1'') (JNum 7)]
   \<and> status (fst (uploadData calm (upload ''sensor-1'' ''wrong'' (Some (JNum 7))) sensorWorld)) \<noteq> 200
   \<and> snd (uploadData calm (upload ''sensor-1'' ''wrong'' (Some (JNum 7))) sensorWorld) = sensorWorld"
proof -
  have ok: "status (fst (uploadData calm
       (upload ''sensor-1'' ''031425364758697a8b9cadbecfe0f102'' (Some (JNum 7))) sensorWorld)) = 200"
    by (simp add: uploadData_def sample_authentication) (simp add: uploadHandler_def upload_def falsy_def)
  have wrong: "status (fst (uploadData calm (upload ''sensor-1'' ''wrong'' (Some (JNum 7))) sensorWorld)) \<noteq> 200"
    by (simp add: uploadData_def authenticateDevice_def calm_def upload_def falsy_str_def
        select_single_def single_def sensorWorld_eq Let_def)
  from ok wrong
    upload_writes_nothing
      [of calm "upload ''sensor-1'' ''031425364758697a8b9cadbecfe0f102'' (Some (JNum 7))" sensorWorld]
    upload_writes_nothing [of calm "upload ''sensor-1'' ''wrong'' (Some (JNum 7))" sensorWorld]
  show ?thesis
    by (simp add: sensorWorld_eq upload_def)
qed

text \<open>
  C8. The list route reads no header. When the datastore answers, it returns 200 with a
  \<open>devices\<close> array holding every record of the table, identifier and token, in stored
  order: the empty array on an empty datastore, and after any sequence of requests the
  credentials issued by the registrations answered 201, one entry each. When the
  datastore is down it returns 500.
\<close>

theorem list_devices_returns_table:
  "(select_outage e = None \<longrightarrow>
      fst (listDevices e req w) = Response 200 (JObj [(''devices'', JArr (map device_json (table w)))])
      \<and> fst (listDevices e req (fresh ent)) = Response 200 (JObj [(''devices'', JArr [])])
      \<and> fst (listDevices e req (serveAll tr (fresh ent)))
          = Response 200 (JObj [(''devices'', JArr (map device_json (issued tr (fresh ent))))]))
   \<and> (select_outage e \<noteq> None \<longrightarrow>
        fst (listDevices e req w) = Response 500 (errorBody ''Error fetching device list.''))"
proof -
  have ok: "fst (listDevices e req w') = Response 200 (JObj [(''devices'', JArr (map device_json (table w')))])"
    if "select_outage e = None" for w'
    using that by (simp add: listDevices_def select_all_def)
  have down: "fst (listDevices e req w) = Response 500 (errorBody ''Error fetching device list.'')"
    if "select_outage e \<noteq> None"
    using that by (auto simp: listDevices_def select_all_def)
  have "table (fresh ent) = []" by (simp add: fresh_def)
  moreover from this have "table (serveAll tr (fresh ent)) = issued tr (fresh ent)"
    by (simp add: serveAll_table)
  ultimately show ?thesis
    using ok [of w] ok [of "fresh ent"] ok [of "serveAll tr (fresh ent)"] down by simp
qed

theorem list_devices_returns_table_witness:
  "select_outage calm = None
   \<and> fst (listDevices calm (registration '''') (fresh sampleEntropy))
       = Response 200 (JObj [(''devices'', JArr [])])
   \<and> fst (listDevices calm (registration '''')
        (serveAll [(PostRegisterDevice, calm, registration ''sensor-1''),
                   (PostRegisterDevice, calm, registration ''sensor-1''),
                   (PostRegisterDevice, calm, registration ''sensor-2'')] (fresh sampleEntropy)))
       = Response 200 (JObj [(''devices'', JArr
           [JObj [(''device_id'', JStr ''sensor-1''), (''token'', JStr ''031425364758697a8b9cadbecfe0f102'')],
            JObj [(''device_id'', JStr ''sensor-2''), (''token'', JStr ''132435465768798a9bacbdcedff00112'')]])])
   \<and> select_outage selectDown \<noteq> None
   \<and> fst (listDevices selectDown (registration '''') sensorWorld)
       = Response 500 (errorBody ''Error fetching device list.'')"
proof -
  have up: "select_outage calm = None" and down: "select_outage selectDown \<noteq> None"
    by (simp_all add: calm_def selectDown_def)
  from up down sample_issued
    list_devices_returns_table [of calm "registration ''''" sensorWorld sampleEntropy
      "[(PostRegisterDevice, calm, registration ''sensor-1''),
        (PostRegisterDevice, calm, registration ''sensor-1''),
        (PostRegisterDevice, calm, registration ''sensor-2'')]"]
    list_devices_returns_table [of selectDown "registration ''''" sensorWorld sampleEntropy "[]"]
  show ?thesis
    by (simp add: device_json_def)
qed

text \<open>
  C9. A registration that is not answered 201 is answered 400 or 500 and leaves the
  rows of the table as they were: no record is added on any failure path.
\<close>

theorem failed_registration_keeps_table:
  assumes "status (fst (registerDevice e req w)) \<noteq> 201"
  shows "table (snd (registerDevice e req w)) = table w
       \<and> status (fst (registerDevice e req w)) \<in> {400, 500}"
  using assms registerDevice_status [of e req w] by (simp add: registerDevice_table)

theorem failed_registration_keeps_table_witness:
  "status (fst (registerDevice insertDown (registration ''sensor-1'') (fresh sampleEntropy))) \<noteq> 201
   \<and> table (snd (registerDevice insertDown (registration ''sensor-1'') (fresh sampleEntropy)))
       = table (fresh sampleEntropy)
   \<and> status (fst (registerDevice insertDown (registration ''sensor-1'') (fresh sampleEntropy))) = 500"
proof -
  have failed: "status (fst (registerDevice insertDown (registration ''sensor-1'') (fresh sampleEntropy))) \<noteq> 201"
    by (simp add: sample_insert_failure)
  from failed_registration_keeps_table [OF failed] show ?thesis
    by (simp add: sample_insert_failure)
qed

text \<open>
  C10. The middleware calls \<open>next()\<close> only when exactly one record has both the
  identifier and the token of the headers. When more than one record has both, the
  single-row lookup fails and the request is answered 403, although a record with the
  right token exists.
\<close>

theorem duplicate_credentials_are_rejected:
  "(authenticateDevice e req w = Next \<longrightarrow>
      length (filter (\<lambda>row. device_id row = the (hdr_device req) \<and> token row = the (hdr_token req))
        (table w)) = 1)
   \<and> (\<not> falsy_str (hdr_device req) \<and> \<not> falsy_str (hdr_token req)
        \<and> 1 < length (filter (\<lambda>row. device_id row = the (hdr_device req) \<and> token row = the (hdr_token req))
              (table w))
      \<longrightarrow> error (select_single (select_outage e)
                  (\<lambda>row. device_id row = the (hdr_device req) \<and> token row = the (hdr_token req)) w) \<noteq> None
          \<and> authenticateDevice e req w
              = Respond (Response 403 (errorBody ''Invalid token or unauthorized device.'')))"
proof -
  have only_one: "length (filter (\<lambda>row. device_id row = the (hdr_device req) \<and> token row = the (hdr_token req))
        (table w)) = 1"
    if "authenticateDevice e req w = Next"
    using that by (rule authenticateDevice_next(4))
  have several: "error (select_single (select_outage e)
                  (\<lambda>row. device_id row = the (hdr_device req) \<and> token row = the (hdr_token req)) w) \<noteq> None
          \<and> authenticateDevice e req w
              = Respond (Response 403 (errorBody ''Invalid token or unauthorized device.''))"
    if h: "\<not> falsy_str (hdr_device req) \<and> \<not> falsy_str (hdr_token req)
        \<and> 1 < length (filter (\<lambda>row. device_id row = the (hdr_device req) \<and> token row = the (hdr_token req))
              (table w))"
  proof
    from h show "error (select_single (select_outage e)
                  (\<lambda>row. device_id row = the (hdr_device req) \<and> token row = the (hdr_token req)) w) \<noteq> None"
      by (cases "select_outage e") (simp_all add: select_single_def single_miss)
    from h show "authenticateDevice e req w
              = Respond (Response 403 (errorBody ''Invalid token or unauthorized device.''))"
      by (simp add: authenticateDevice_not_single)
  qed
  from only_one several show ?thesis by blast
qed

theorem duplicate_credentials_are_rejected_witness:
  "authenticateDevice calm (upload ''sensor-1'' ''031425364758697a8b9cadbecfe0f102'' None) sensorWorld = Next
   \<and> length (filter (\<lambda>row. device_id row = ''sensor-1'' \<and> token row = ''031425364758697a8b9cadbecfe0f102'')
        (table sensorWorld)) = 1
   \<and> 1 < length (filter (\<lambda>row. device_id row = ''sensor-1'' \<and> token row = ''031425364758697a8b9cadbecfe0f102'')
        (table twinWorld))
   \<and> authenticateDevice calm (upload ''sensor-1'' ''031425364758697a8b9cadbecfe0f102'' None) twinWorld
       = Respond (Response 403 (errorBody ''Invalid token or unauthorized device.''))"
proof -
  have twins: "1 < length (filter (\<lambda>row. device_id row = ''sensor-1''
      \<and> token row = ''031425364758697a8b9cadbecfe0f102'') (table twinWorld))"
    by (simp add: twinWorld_def)
  from twins sample_authentication [of None]
    duplicate_credentials_are_rejected
      [of calm "upload ''sensor-1'' ''031425364758697a8b9cadbecfe0f102'' None" sensorWorld]
    duplicate_credentials_are_rejected
      [of calm "upload ''sensor-1'' ''031425364758697a8b9cadbecfe0f102'' None" twinWorld]
  show ?thesis
    by (simp add: upload_def falsy_str_def)
qed

end
